theory Spec2Isabelle
  imports Main
begin

section \<open>The console of Math Inspector (mathinspector/console/console.py)\<close>

text \<open>
  The console is a text widget bound to an interactive interpreter. The class owns
  little state of its own (the input buffer, the interpreter's namespace); everything
  else it does is a call on a collaborator: the text widget it inherits from, the
  prompt, the code parser, the application's menu and registries, the external editor.
  The model keeps the state the class reads and writes in a record, and records every
  call on a collaborator, in the order the calls are made, in the field \<open>calls\<close>.

  Strings are lists of 8-bit characters: a Python string is modelled when all its code
  points are below 256.
\<close>

subsection \<open>Python values, as far as the console looks at them\<close>

text \<open>
  The console asks three things of a value: whether it is \<open>None\<close>, whether it is a
  module (\<open>inspect.ismodule\<close>) or an instance of \<open>Exception\<close>, and what \<open>str\<close> gives
  for it. A value other than \<open>None\<close> carries the text that \<open>str\<close> returns.
\<close>

datatype pyval = PyNone | PyModule string | PyException string | PyOther string

fun py_str :: "pyval \<Rightarrow> string" where
  "py_str PyNone = ''None''"
| "py_str (PyModule s) = s"
| "py_str (PyException s) = s"
| "py_str (PyOther s) = s"

fun ismodule :: "pyval \<Rightarrow> bool" where
  "ismodule (PyModule s) = True"
| "ismodule v = False"

fun is_exception :: "pyval \<Rightarrow> bool" where
  "is_exception (PyException s) = True"
| "is_exception v = False"

datatype error = KeyError | AttributeError | SystemExit

subsection \<open>Tags, tracebacks and the process-wide hooks\<close>

text \<open>
  The \<open>tags\<close> argument of \<open>write\<close> is a tuple by default, and the string \<open>"red"\<close> when
  \<open>showtraceback\<close> calls it. Iterating over a string gives its characters, which is
  what \<open>("red", *tags)\<close> and \<open>list(tags)\<close> do; \<open>tag_elems\<close> is that iteration. The text
  widget reads a string as the name of one tag: \<open>tag_names\<close>.
\<close>

datatype tags = Tags_str string | Tags_tuple "string list"

fun tag_elems :: "tags \<Rightarrow> string list" where
  "tag_elems (Tags_str s) = map (\<lambda>c. [c]) s"
| "tag_elems (Tags_tuple ts) = ts"

fun tag_names :: "tags \<Rightarrow> string list" where
  "tag_names (Tags_str s) = [s]"
| "tag_names (Tags_tuple ts) = ts"

text \<open>A traceback object: a frame and the rest of the chain (\<open>tb_next\<close>).\<close>

datatype traceback = Traceback string "traceback option"

fun tb_next :: "traceback \<Rightarrow> traceback option" where
  "tb_next (Traceback frame nxt) = nxt"

text \<open>
  What \<open>sys.displayhook\<close>, \<open>sys.excepthook\<close> and the entries of \<open>__builtins__\<close> can be
  bound to, and where a standard stream leads.
\<close>

datatype callable =
    Py_default
  | Console_write
  | Console_showtraceback
  | Help_obj
  | Clear_obj
  | License_obj
  | Notice string

datatype stream = Terminal | Console_widget

subsection \<open>Calls on collaborators\<close>

datatype handler =
    On_key_log
  | Prompt_on_configure_log
  | On_click_log
  | Motion_handler string
  | Leave_handler string
  | Click_handler string

datatype call =
    Insert_end string tags bool
  | Insert_end_plain string
  | Delete_all
  | See_end
  | Highlight string string nat
  | Prompt_call
  | Prompt_move
  | Prompt_set_is_on_bottom bool
  | History_extend string
  | Parse_preprocess string
  | Parse_call string
  | Builtin_print string
  | Menu_setview string bool
  | Open_editor string
  | Bind string handler
  | Tag_bind string string handler
  | Pack

text \<open>
  \<open>Insert_end t tags sh\<close> is \<open>self.insert("end", t, tags, syntax_highlight=sh)\<close>,
  \<open>Insert_end_plain t\<close> is \<open>self.insert("end", t)\<close>, \<open>Delete_all\<close> is
  \<open>self.delete("1.0", "end")\<close>, \<open>See_end\<close> is \<open>self.see("end")\<close>,
  \<open>Highlight p tag idx\<close> is \<open>self.highlight(p, tag, idx)\<close>, \<open>Prompt_call\<close> is
  \<open>self.prompt()\<close>, \<open>Prompt_set_is_on_bottom b\<close> is the assignment
  \<open>self.prompt.is_on_bottom = b\<close>, \<open>History_extend s\<close> is
  \<open>self.prompt.history.extend(s)\<close>, \<open>Parse_preprocess\<close> and \<open>Parse_call\<close> are
  \<open>self.parse.preprocess(source)\<close> and \<open>self.parse(source)\<close>, \<open>Builtin_print\<close> is the
  saved built-in \<open>print\<close>, \<open>Menu_setview\<close> is \<open>self.app.menu.setview\<close>.
\<close>

subsection \<open>The state\<close>

record world =
  sys_displayhook :: callable
  sys_excepthook :: callable
  sys_stdout :: stream
  sys_stderr :: stream
  builtins :: "string \<rightharpoonup> callable"
  sys_last_type :: "string option"
  sys_last_value :: "string option"
  sys_last_traceback :: "traceback option"
  locals_store :: "string \<rightharpoonup> pyval"
  app_objects :: "string \<rightharpoonup> pyval"
  app_modules :: "string \<rightharpoonup> pyval"
  buffer :: "string list"
  hover_range :: "(nat \<times> nat) option"
  calls :: "call list"

definition log :: "call \<Rightarrow> world \<Rightarrow> world" where
  "log c w = w\<lparr>calls := calls w @ [c]\<rparr>"

definition prompt :: "world \<Rightarrow> world" where
  "prompt w = log Prompt_call w"

subsection \<open>The namespace and the registries\<close>

text \<open>
  \<open>app.objects\<close> and \<open>app.modules\<close> are the application's registries; the model holds
  the dictionary each of them keeps in \<open>store\<close>. Assigning to a key of a registry
  stores the value; deleting a key that is not there raises \<open>KeyError\<close>.
\<close>

definition setitem :: "string \<Rightarrow> pyval \<Rightarrow> world \<Rightarrow> world" where
  "setitem key v w =
     (if ismodule v then w\<lparr>app_modules := (app_modules w)(key \<mapsto> v)\<rparr>
      else w\<lparr>app_objects := (app_objects w)(key \<mapsto> v)\<rparr>)"

definition delitem :: "string \<Rightarrow> pyval \<Rightarrow> world \<Rightarrow> error + world" where
  "delitem key v w =
     (if ismodule v then
        (if key \<in> dom (app_modules w)
         then Inr (w\<lparr>app_modules := (app_modules w)(key := None)\<rparr>)
         else Inl KeyError)
      else
        (if key \<in> dom (app_objects w)
         then Inr (w\<lparr>app_objects := (app_objects w)(key := None)\<rparr>)
         else Inl KeyError))"

text \<open>\<open>dict.update\<close> is \<open>++\<close>: the entries of the argument win.\<close>

definition synclocals :: "world \<Rightarrow> world" where
  "synclocals w =
     (let w1 = w\<lparr>locals_store := locals_store w ++ app_objects w\<rparr>
      in w1\<lparr>locals_store := locals_store w1 ++ app_modules w1\<rparr>)"

text \<open>
  \<open>eval\<close>: the built-in \<open>eval\<close> is the parameter \<open>py_eval\<close>; it is given the source and
  the state in which the namespace has been synchronised.
\<close>

definition eval_source :: "(string \<Rightarrow> world \<Rightarrow> 'r) \<Rightarrow> string \<Rightarrow> world \<Rightarrow> 'r" where
  "eval_source py_eval source w = py_eval source (synclocals w)"

subsection \<open>push\<close>

text \<open>
  \<open>runsource\<close> is inherited from the standard library's \<open>InteractiveInterpreter\<close>; it
  is the parameter \<open>run\<close>. A run either returns whether the source is incomplete, with
  the state it leaves (\<open>Inr\<close>), or raises, with the state at the raise (\<open>Inl\<close>): the
  library's \<open>runcode\<close> raises \<open>SystemExit\<close> again. \<open>push\<close> has no handler, so what the run
  raises leaves \<open>push\<close> at once. \<open>push_prepare\<close> is the body of \<open>push\<close> up to the call of
  \<open>runsource\<close>, \<open>push_finish\<close> the body after it.
\<close>

definition push_source :: "string \<Rightarrow> world \<Rightarrow> string" where
  "push_source s w = concat (buffer w @ [s])"

definition push_prepare :: "string \<Rightarrow> world \<Rightarrow> world" where
  "push_prepare s w =
     (let w1 = synclocals w;
          source = push_source s w1;
          w2 = log (Parse_preprocess source) w1
      in if take 4 source = ''plot'' then prompt w2 else w2)"

definition push_finish ::
  "string \<Rightarrow> string \<Rightarrow> (error \<times> world) + (bool \<times> world) \<Rightarrow> (error \<times> world) + world" where
  "push_finish s source r =
     (case r of
        Inl (e, w3) \<Rightarrow> Inl (e, w3)
      | Inr (did_compile, w3) \<Rightarrow>
          Inr (prompt (if did_compile then w3\<lparr>buffer := buffer w3 @ [s @ [CHR 0x0A]]\<rparr>
                       else (log (History_extend s) (log (Parse_call source) w3))\<lparr>buffer := []\<rparr>)))"

definition push ::
  "(string \<Rightarrow> string \<Rightarrow> world \<Rightarrow> (error \<times> world) + (bool \<times> world)) \<Rightarrow>
   string \<Rightarrow> string \<Rightarrow> world \<Rightarrow> (error \<times> world) + world" where
  "push run s filename w =
     (let source = push_source s (synclocals w)
      in push_finish s source (run source filename (push_prepare s w)))"

text \<open>The state in which a call ends, by return or by raise, and what it raised.\<close>

definition end_state :: "(error \<times> world) + world \<Rightarrow> world" where
  "end_state r = (case r of Inl (e, w) \<Rightarrow> w | Inr w \<Rightarrow> w)"

definition raised :: "(error \<times> world) + world \<Rightarrow> error option" where
  "raised r = (case r of Inl (e, w) \<Rightarrow> Some e | Inr w \<Rightarrow> None)"

subsection \<open>The text widget\<close>

text \<open>
  The methods \<open>insert\<close>, \<open>delete\<close>, \<open>get\<close>, \<open>index\<close> and \<open>highlight\<close> of the text
  widget the console inherits from (class \<open>Text\<close> of the module \<open>widget\<close>) are not in
  this file, and the spec says of them only that the console is bound to a text widget.
  What \<open>get\<close> and \<open>index\<close> answer is computed from the calls made so far. Positions are
  offsets into the text. What \<open>highlight\<close> does to the widget is not modelled: the
  call is recorded, and whether it returns is a parameter of \<open>write\<close>.
\<close>

text \<open>
  Modelled from the spec: \<open>Text.insert\<close> and \<open>Text.delete\<close>, missing from this file, are
  those of a text widget: text inserted at \<open>"end"\<close> is appended, deleting from \<open>"1.0"\<close>
  to \<open>"end"\<close> leaves no text, and no other call changes the text.
\<close>

fun text_step :: "string \<Rightarrow> call \<Rightarrow> string" where
  "text_step t (Insert_end s tg sh) = t @ s"
| "text_step t (Insert_end_plain s) = t @ s"
| "text_step t Delete_all = []"
| "text_step t c = t"

definition widget_text :: "call list \<Rightarrow> string" where
  "widget_text cs = foldl text_step [] cs"

text \<open>The texts the calls in a list insert into the widget, in order.\<close>

fun inserted :: "call \<Rightarrow> string list" where
  "inserted (Insert_end s tg sh) = [s]"
| "inserted (Insert_end_plain s) = [s]"
| "inserted c = []"

definition inserts :: "call list \<Rightarrow> string list" where
  "inserts cs = concat (map inserted cs)"

text \<open>
  Modelled from the spec: \<open>Text.index("insert")\<close>, missing from this file, is the end of
  the text: the insertion cursor of the read-only widget stays where the text ends.
\<close>

definition index_insert :: "world \<Rightarrow> nat" where
  "index_insert w = length (widget_text (calls w))"

text \<open>
  Modelled from the spec: \<open>Text.get\<close>, missing from this file, is that of a text
  widget: \<open>get("1.0", "end")\<close> is the text and the newline that ends it, and
  \<open>get(a, b)\<close> the part of it from \<open>a\<close> up to \<open>b\<close>.
\<close>

definition get_all :: "world \<Rightarrow> string" where
  "get_all w = widget_text (calls w) @ [CHR 0x0A]"

definition get_range :: "nat \<Rightarrow> nat \<Rightarrow> world \<Rightarrow> string" where
  "get_range a b w = take (b - a) (drop a (get_all w))"

subsection \<open>Strings\<close>

text \<open>The characters \<open>str.isspace\<close> accepts, among those below 256.\<close>

definition py_isspace :: "char \<Rightarrow> bool" where
  "py_isspace c = ((of_char c :: nat) \<in> {9, 10, 11, 12, 13, 28, 29, 30, 31, 32, 133, 160})"

definition rstrip :: "string \<Rightarrow> string" where
  "rstrip s = rev (dropWhile py_isspace (rev s))"

definition strip :: "string \<Rightarrow> string" where
  "strip s = rstrip (dropWhile py_isspace s)"

definition RE_TRACEBACK :: string where
  "RE_TRACEBACK = ''^()(Traceback '' @ [CHR 0x5C] @ ''(most recent call last'' @ [CHR 0x5C] @ ''))''"

definition RE_FILEPATH :: string where
  "RE_FILEPATH = ''(File ('' @ [CHR 0x5C, CHR 0x22] @ ''(?!<).*'' @ [CHR 0x5C, CHR 0x22] @ ''))''"

definition RE_INPUT :: string where
  "RE_INPUT = ''(File '' @ [CHR 0x5C, CHR 0x22] @ ''(<.*>)'' @ [CHR 0x5C, CHR 0x22] @ '')''"

definition RE_LINE :: string where
  "RE_LINE = ''((line [0-9]*))''"

definition RE_IN :: string where
  "RE_IN = ''line ([0-9]*), in (.*)''"

text \<open>
  \<open>re.match(RE_TRACEBACK, t)\<close>: the pattern is anchored at the start, has an empty
  group and then the literal text, so it matches exactly the texts that begin with it.
\<close>

definition match_traceback :: "string \<Rightarrow> bool" where
  "match_traceback t = (take 33 t = ''Traceback (most recent call last)'')"

subsection \<open>write (here write_console)\<close>

text \<open>
  The loop of \<open>write\<close> over its arguments; \<open>n\<close> is \<open>len(args)\<close>. The tags are
  reassigned in the loop and kept from one argument to the next.
\<close>

fun write_args :: "nat \<Rightarrow> bool \<Rightarrow> pyval list \<Rightarrow> tags \<times> world \<Rightarrow> tags \<times> world" where
  "write_args n sh [] st = st"
| "write_args n sh (r # rs) (tgs, w) =
     (let tgs1 = (if match_traceback (py_str r) then Tags_tuple (''red'' # tag_elems tgs) else tgs)
      in if r \<noteq> PyNone then
           (let (tgs2, w2) =
                  (if is_exception r
                   then (Tags_tuple (tag_elems tgs1 @ [''red'']), log (Builtin_print [CHR 0x07]) w)
                   else (tgs1, w));
                w3 = log (Insert_end (py_str r) tgs2 sh) w2;
                w4 = (if 1 < n then log (Insert_end_plain [CHR 0x09]) w3 else w3)
            in write_args n sh rs (tgs2, w4))
         else write_args n sh rs (tgs1, w))"

text \<open>
  The calls of \<open>highlight\<close> stand in a \<open>try\<close> whose handler passes. The parameter \<open>hl\<close>
  says whether a call of \<open>highlight\<close> returns (\<open>True\<close>) or raises (\<open>False\<close>): the first
  call that raises ends the \<open>try\<close>, and the calls after it are not made.
\<close>

fun try_highlights ::
  "(string \<Rightarrow> string \<Rightarrow> nat \<Rightarrow> world \<Rightarrow> bool) \<Rightarrow> (string \<times> string) list \<Rightarrow> nat \<Rightarrow> world \<Rightarrow> world" where
  "try_highlights hl [] idx w = w"
| "try_highlights hl ((p, tag) # rest) idx w =
     (if hl p tag idx w then try_highlights hl rest idx (log (Highlight p tag idx) w)
      else log (Highlight p tag idx) w)"

definition write_console ::
  "(string \<Rightarrow> string \<Rightarrow> nat \<Rightarrow> world \<Rightarrow> bool) \<Rightarrow> pyval list \<Rightarrow> bool \<Rightarrow> tags \<Rightarrow> world \<Rightarrow> world" where
  "write_console hl args syntax_highlight tgs w =
     (let idx = index_insert w;
          w1 = snd (write_args (length args) syntax_highlight args (tgs, w));
          w2 = try_highlights hl
                 [(RE_FILEPATH, ''error_file''), (RE_INPUT, ''purple''),
                  (RE_LINE, ''blue''), (RE_IN, ''green'')] idx w1;
          w3 = (if strip (get_all w2) \<noteq> [] then log (Insert_end_plain [CHR 0x0A]) w2 else w2)
      in log Prompt_move (log See_end w3))"

subsection \<open>showtraceback, clear, the click on a link\<close>

text \<open>
  \<open>sys.exc_info()\<close> is the argument \<open>ei\<close>, \<open>traceback.format_exception\<close> the parameter
  \<open>format_exception\<close>. The arguments of \<open>showtraceback\<close> itself (\<open>*args\<close>) are not
  used. With no traceback, \<open>last_tb.tb_next\<close> raises \<open>AttributeError\<close>, which the
  \<open>try\<close> ... \<open>finally\<close> lets through.
\<close>

definition showtraceback ::
  "(string \<Rightarrow> string \<Rightarrow> nat \<Rightarrow> world \<Rightarrow> bool) \<Rightarrow>
   (string option \<Rightarrow> string option \<Rightarrow> traceback option \<Rightarrow> string list) \<Rightarrow>
   string option \<times> string option \<times> traceback option \<Rightarrow> world \<Rightarrow> (error \<times> world) + world" where
  "showtraceback hl format_exception ei w =
     (case ei of (ty, v, last_tb) \<Rightarrow>
        (let w1 = w\<lparr>sys_last_type := ty, sys_last_value := v, sys_last_traceback := last_tb\<rparr>
         in case last_tb of
              None \<Rightarrow> Inl (AttributeError, w1)
            | Some tb \<Rightarrow>
                (let lines = format_exception ty v (tb_next tb);
                     w2 = write_console hl [PyOther (rstrip (concat lines))] False (Tags_str ''red'') w1;
                     w3 = log (Builtin_print [CHR 0x07]) w2
                 in Inr (log (Menu_setview ''console'' True) w3))))"

definition clear :: "world \<Rightarrow> world" where
  "clear w = log Delete_all (log (Prompt_set_is_on_bottom False) w)"

definition Clear_call :: "world \<Rightarrow> world" where
  "Clear_call w = prompt (clear w)"

definition Clear_repr :: "world \<Rightarrow> world \<times> string" where
  "Clear_repr w = (prompt (clear w), [])"

text \<open>
  \<open>_click\<close>: \<open>os.path.abspath\<close> is the parameter \<open>abspath\<close>; \<open>content[1:-1]\<close> drops the
  first and the last character, and is empty for a content of fewer than two.
\<close>

definition click :: "(string \<Rightarrow> string) \<Rightarrow> string \<Rightarrow> world \<Rightarrow> world" where
  "click abspath tag w =
     (case hover_range w of
        None \<Rightarrow> w
      | Some (a, b) \<Rightarrow>
          (let content = get_range a b w
           in if tag = ''error_file'' then log (Open_editor (abspath (butlast (tl content)))) w
              else w))"

subsection \<open>The constructor\<close>

text \<open>
  \<open>__init__\<close>: the namespace starts with \<open>app\<close> and \<open>plot\<close>; the widget, the prompt
  and the parser are new, so no call has been made on them; the hooks and six
  entries of \<open>__builtins__\<close> are replaced; the buffer is empty; the bindings are made.
\<close>

definition copyright_text :: string where
  "copyright_text = ''Copyright (c) 2018-2021 Matt Calhoun.'' @ [CHR 0x0A] @ ''All Rights Reserved.''"

definition credits_text :: string where
  "credits_text = ''Created by Matt Calhoun.'' @ [CHR 0x0A]
     @ ''See https://mathinspector.com for more information.''"

definition Console_init :: "pyval \<Rightarrow> pyval \<Rightarrow> world \<Rightarrow> world" where
  "Console_init app plot_fn w =
     (let w1 = w\<lparr>locals_store := [''app'' \<mapsto> app, ''plot'' \<mapsto> plot_fn], calls := []\<rparr>;
          w2 = w1\<lparr>sys_displayhook := Console_write, sys_excepthook := Console_showtraceback\<rparr>;
          w3 = w2\<lparr>builtins := (builtins w2)
                 (''print'' \<mapsto> Console_write, ''help'' \<mapsto> Help_obj, ''clear'' \<mapsto> Clear_obj,
                  ''copyright'' \<mapsto> Notice copyright_text, ''credits'' \<mapsto> Notice credits_text,
                  ''license'' \<mapsto> License_obj)\<rparr>;
          w4 = w3\<lparr>buffer := []\<rparr>;
          w5 = log Pack
                 (log (Bind ''<ButtonRelease-1>'' On_click_log)
                   (log (Bind ''<Configure>'' Prompt_on_configure_log)
                     (log (Bind ''<Key>'' On_key_log) w4)))
      in log (Tag_bind ''error_file'' ''<Button-1>'' (Click_handler ''error_file''))
           (log (Tag_bind ''error_file'' ''<Leave>'' (Leave_handler ''error_file''))
             (log (Tag_bind ''error_file'' ''<Motion>'' (Motion_handler ''error_file'')) w5)))"

text \<open>A process in which no console has been made: the interpreter's own hooks and streams.\<close>

definition fresh_process :: world where
  "fresh_process =
     \<lparr>sys_displayhook = Py_default, sys_excepthook = Py_default,
      sys_stdout = Terminal, sys_stderr = Terminal,
      builtins = [''print'' \<mapsto> Py_default, ''help'' \<mapsto> Py_default, ''copyright'' \<mapsto> Py_default,
                  ''credits'' \<mapsto> Py_default, ''license'' \<mapsto> Py_default],
      sys_last_type = None, sys_last_value = None, sys_last_traceback = None,
      locals_store = Map.empty, app_objects = Map.empty, app_modules = Map.empty,
      buffer = [], hover_range = None, calls = []\<rparr>"

subsection \<open>Instances for the examples\<close>

text \<open>A widget whose \<open>highlight\<close> always returns.\<close>

definition hl_returns :: "string \<Rightarrow> string \<Rightarrow> nat \<Rightarrow> world \<Rightarrow> bool" where
  "hl_returns p tag idx w = True"

text \<open>
  An interpreter for the examples. It knows eight sources, and treats them as the
  standard library's \<open>runsource\<close> does in this console: a block or a continued line that
  is not finished is incomplete; \<open>exit()\<close> raises \<open>SystemExit\<close>; an assignment binds the
  name, which the namespace passes on to \<open>setitem\<close>; \<open>clear()\<close> calls the clear helper,
  and the display hook, which is \<open>write\<close>, is given its result \<open>None\<close>. Any other source
  is taken as complete and without effect.
\<close>

definition run_demo :: "string \<Rightarrow> string \<Rightarrow> world \<Rightarrow> (error \<times> world) + (bool \<times> world)" where
  "run_demo source filename w =
     (if source = ''if True:'' \<or> source = ''if True:'' @ [CHR 0x0A] @ ''  exit()''
         \<or> source = ''x = '' @ [CHR 0x5C]
      then Inr (True, w)
      else if source = ''if True:'' @ [CHR 0x0A] @ ''  exit()'' @ [CHR 0x0A]
      then Inl (SystemExit, w)
      else if source = ''x = 1'' \<or> source = ''x = '' @ [CHR 0x5C, CHR 0x0A] @ ''1''
      then Inr (False, setitem ''x'' (PyOther ''1'')
                  (w\<lparr>locals_store := (locals_store w)(''x'' \<mapsto> PyOther ''1'')\<rparr>))
      else if source = ''plot = 1''
      then Inr (False, setitem ''plot'' (PyOther ''1'')
                  (w\<lparr>locals_store := (locals_store w)(''plot'' \<mapsto> PyOther ''1'')\<rparr>))
      else if source = ''clear()''
      then Inr (False, write_console hl_returns [PyNone] False (Tags_tuple []) (Clear_call w))
      else Inr (False, w))"

section \<open>Properties\<close>

subsection \<open>Auxiliary facts\<close>

lemma log_fields [simp]:
  "calls (log c w) = calls w @ [c]"
  "buffer (log c w) = buffer w"
  "locals_store (log c w) = locals_store w"
  "app_objects (log c w) = app_objects w"
  "app_modules (log c w) = app_modules w"
  "hover_range (log c w) = hover_range w"
  "sys_stdout (log c w) = sys_stdout w"
  "sys_stderr (log c w) = sys_stderr w"
  "sys_displayhook (log c w) = sys_displayhook w"
  "sys_excepthook (log c w) = sys_excepthook w"
  "builtins (log c w) = builtins w"
  by (simp_all add: log_def)

lemma synclocals_fields [simp]:
  "calls (synclocals w) = calls w"
  "buffer (synclocals w) = buffer w"
  "app_objects (synclocals w) = app_objects w"
  "app_modules (synclocals w) = app_modules w"
  "locals_store (synclocals w) = locals_store w ++ app_objects w ++ app_modules w"
  by (simp_all add: synclocals_def Let_def)

lemma push_prepare_fields:
  "buffer (push_prepare s w) = buffer w"
  "locals_store (push_prepare s w) = locals_store (synclocals w)"
  "app_objects (push_prepare s w) = app_objects w"
  "app_modules (push_prepare s w) = app_modules w"
  "calls (push_prepare s w) =
     calls w @ [Parse_preprocess (concat (buffer w) @ s)]
       @ (if take 4 (concat (buffer w) @ s) = ''plot'' then [Prompt_call] else [])"
  by (simp_all add: push_prepare_def push_source_def prompt_def Let_def)

lemma push_unfold:
  "push run s filename w =
     push_finish s (concat (buffer w) @ s)
       (run (concat (buffer w) @ s) filename (push_prepare s w))"
  by (simp add: push_def push_source_def Let_def)

lemma widget_text_snoc:
  "widget_text (cs @ [c]) = text_step (widget_text cs) c"
  by (simp add: widget_text_def)

lemma inserts_simps [simp]:
  "inserts [] = []"
  "inserts (c # cs) = inserted c @ inserts cs"
  "inserts (cs @ ds) = inserts cs @ inserts ds"
  by (simp_all add: inserts_def)

text \<open>The calls of \<open>highlight\<close> insert nothing and leave the text as it is.\<close>

lemma try_highlights_inserts:
  "inserts (calls (try_highlights hl ps idx w)) = inserts (calls w)"
  by (induction ps arbitrary: w) auto

lemma try_highlights_text:
  "widget_text (calls (try_highlights hl ps idx w)) = widget_text (calls w)"
  by (induction ps arbitrary: w) (auto simp: widget_text_snoc)

lemma try_highlights_calls:
  "\<exists>hs. calls (try_highlights hl ps idx w) = calls w @ hs
        \<and> (\<forall>c \<in> set hs. \<exists>p tag. c = Highlight p tag idx)"
proof (induction ps arbitrary: w)
  case Nil
  show ?case by simp
next
  case (Cons pt ps)
  obtain p tag where pt: "pt = (p, tag)" by (cases pt)
  show ?case
  proof (cases "hl p tag idx w")
    case False
    then show ?thesis by (simp add: pt)
  next
    case True
    from Cons.IH [of "log (Highlight p tag idx) w"]
    obtain hs where hs: "calls (try_highlights hl ps idx (log (Highlight p tag idx) w)) =
        calls (log (Highlight p tag idx) w) @ hs"
      "\<forall>c \<in> set hs. \<exists>p tag. c = Highlight p tag idx" by blast
    have "calls (try_highlights hl (pt # ps) idx w) = calls w @ (Highlight p tag idx # hs)"
      using True hs(1) by (simp add: pt)
    moreover have "\<forall>c \<in> set (Highlight p tag idx # hs). \<exists>p tag. c = Highlight p tag idx"
      using hs(2) by simp
    ultimately show ?thesis by blast
  qed
qed

text \<open>What the loop of \<open>write\<close> inserts: each argument but \<open>None\<close>, and a tab when there
  are two arguments or more.\<close>

lemma write_args_inserts:
  "inserts (calls (snd (write_args n sh args (tgs, w)))) =
     inserts (calls w)
       @ concat (map (\<lambda>r. py_str r # (if 1 < n then [[CHR 0x09]] else []))
                   (filter (\<lambda>r. r \<noteq> PyNone) args))"
proof (induction args arbitrary: tgs w)
  case Nil
  show ?case by simp
next
  case (Cons r rs)
  show ?case
  proof (cases "r = PyNone")
    case True
    then show ?thesis using Cons.IH by (simp add: Let_def)
  next
    case False
    then show ?thesis using Cons.IH
      by (simp add: Let_def split: prod.splits)
  qed
qed

lemma write_args_single:
  "write_args (Suc 0) sh [PyOther t] (tgs, w) =
     ((if match_traceback t then Tags_tuple (''red'' # tag_elems tgs) else tgs),
      log (Insert_end t (if match_traceback t then Tags_tuple (''red'' # tag_elems tgs) else tgs) sh) w)"
  by (simp add: Let_def)

lemma write_console_inserts:
  "inserts (calls (write_console hl args sh tgs w)) =
     inserts (calls (snd (write_args (length args) sh args (tgs, w))))
       @ (if strip (widget_text (calls (snd (write_args (length args) sh args (tgs, w))))
                     @ [CHR 0x0A]) \<noteq> []
          then [[CHR 0x0A]] else [])"
  by (simp add: write_console_def Let_def get_all_def try_highlights_inserts try_highlights_text
      del: try_highlights.simps)

text \<open>\<open>rstrip\<close> takes whitespace, and only whitespace, from the end.\<close>

lemma rstrip_splits:
  "\<exists>ws. s = rstrip s @ ws \<and> (\<forall>c \<in> set ws. py_isspace c)"
proof -
  have "rev (takeWhile py_isspace (rev s) @ dropWhile py_isspace (rev s)) = s"
    by (simp only: takeWhile_dropWhile_id rev_rev_ident)
  then have "s = rstrip s @ rev (takeWhile py_isspace (rev s))"
    by (simp only: rev_append rstrip_def)
  moreover have "\<forall>c \<in> set (rev (takeWhile py_isspace (rev s))). py_isspace c"
    by (auto dest: set_takeWhileD)
  ultimately show ?thesis by blast
qed

lemma rstrip_no_trailing_space:
  "rstrip s = [] \<or> \<not> py_isspace (last (rstrip s))"
proof (cases "dropWhile py_isspace (rev s) = []")
  case True
  then show ?thesis by (simp add: rstrip_def)
next
  case False
  then have "\<not> py_isspace (hd (dropWhile py_isspace (rev s)))" by (rule hd_dropWhile)
  with False show ?thesis by (simp add: rstrip_def last_rev)
qed

subsection \<open>The constructor and the process-wide hooks\<close>

text \<open>
  C1 (as stated, fails): after the constructor has run, the standard output and the
  standard error of the process lead to the console widget. The constructor never
  assigns \<open>sys.stdout\<close> or \<open>sys.stderr\<close>: in a process whose streams lead to the
  terminal they still do after a console has been made.
\<close>

theorem Console_init_streams_counterexample:
  "\<not> (sys_stdout (Console_init (PyOther ''app'') (PyOther ''plot'') fresh_process) = Console_widget
      \<and> sys_stderr (Console_init (PyOther ''app'') (PyOther ''plot'') fresh_process) = Console_widget)"
  by (simp add: Console_init_def Let_def fresh_process_def)

text \<open>
  C1 (amended): the constructor installs \<open>write\<close> as \<open>sys.displayhook\<close> and as the
  built-in \<open>print\<close>, and \<open>showtraceback\<close> as \<open>sys.excepthook\<close>; it leaves \<open>sys.stdout\<close>
  and \<open>sys.stderr\<close> as they were.
\<close>

theorem Console_init_installs_hooks:
  "sys_displayhook (Console_init app plot_fn w) = Console_write
   \<and> sys_excepthook (Console_init app plot_fn w) = Console_showtraceback
   \<and> builtins (Console_init app plot_fn w) ''print'' = Some Console_write
   \<and> sys_stdout (Console_init app plot_fn w) = sys_stdout w
   \<and> sys_stderr (Console_init app plot_fn w) = sys_stderr w"
  by (simp add: Console_init_def Let_def)

subsection \<open>The input buffer\<close>

text \<open>
  C2 (as stated, fails): when the source is not found incomplete, the buffer is emptied.
  With \<open>if True:\<close> and \<open>  exit()\<close> buffered, the empty line completes the block; the run
  raises \<open>SystemExit\<close>, which leaves \<open>push\<close> before \<open>self.buffer.clear()\<close>: the two lines
  are still in the buffer.
\<close>

theorem push_buffer_counterexample:
  "raised (push run_demo [] ''<input>''
       (fresh_process\<lparr>buffer := [''if True:'' @ [CHR 0x0A], ''  exit()'' @ [CHR 0x0A]]\<rparr>))
     = Some SystemExit
   \<and> buffer (end_state (push run_demo [] ''<input>''
       (fresh_process\<lparr>buffer := [''if True:'' @ [CHR 0x0A], ''  exit()'' @ [CHR 0x0A]]\<rparr>)))
     = [''if True:'' @ [CHR 0x0A], ''  exit()'' @ [CHR 0x0A]]"
  by (simp add: push_unfold push_finish_def run_demo_def raised_def end_state_def
      push_prepare_fields)

text \<open>
  C2 (amended): for every call of \<open>push(s)\<close> the source given to the interpreter is the
  concatenation of the buffered lines followed by \<open>s\<close>, and nothing before the run
  changes the buffer. When \<open>runsource\<close> returns true, \<open>s\<close> and a newline are appended to
  the buffer; when it returns false, the buffer is emptied; when it raises, \<open>push\<close>
  raises the same in the state the run left, the buffer neither extended nor emptied.
\<close>

theorem push_buffer:
  "push run s filename w =
     push_finish s (concat (buffer w) @ s)
       (run (concat (buffer w) @ s) filename (push_prepare s w))
   \<and> buffer (push_prepare s w) = buffer w
   \<and> (case run (concat (buffer w) @ s) filename (push_prepare s w) of
         Inr (did_compile, w3) \<Rightarrow>
           raised (push run s filename w) = None
           \<and> buffer (end_state (push run s filename w)) =
               (if did_compile then buffer w3 @ [s @ [CHR 0x0A]] else [])
       | Inl (e, w3) \<Rightarrow> push run s filename w = Inl (e, w3))"
  by (simp add: push_unfold push_finish_def prompt_def raised_def end_state_def
      push_prepare_fields split: sum.splits prod.splits)

theorem push_buffer_witness:
  "raised (push run_demo ''if True:'' ''<input>'' fresh_process) = None
   \<and> buffer (end_state (push run_demo ''if True:'' ''<input>'' fresh_process))
       = [''if True:'' @ [CHR 0x0A]]
   \<and> buffer (end_state (push run_demo ''  exit()'' ''<input>''
        (fresh_process\<lparr>buffer := [''if True:'' @ [CHR 0x0A]]\<rparr>)))
       = [''if True:'' @ [CHR 0x0A], ''  exit()'' @ [CHR 0x0A]]
   \<and> raised (push run_demo ''1'' ''<input>''
        (fresh_process\<lparr>buffer := [''x = '' @ [CHR 0x5C, CHR 0x0A]]\<rparr>)) = None
   \<and> buffer (end_state (push run_demo ''1'' ''<input>''
        (fresh_process\<lparr>buffer := [''x = '' @ [CHR 0x5C, CHR 0x0A]]\<rparr>))) = []
   \<and> raised (push run_demo [] ''<input>''
        (fresh_process\<lparr>buffer := [''if True:'' @ [CHR 0x0A], ''  exit()'' @ [CHR 0x0A]]\<rparr>))
       = Some SystemExit"
  using push_buffer [of run_demo "''if True:''" "''<input>''" fresh_process]
    push_buffer [of run_demo "''  exit()''" "''<input>''"
      "fresh_process\<lparr>buffer := [''if True:'' @ [CHR 0x0A]]\<rparr>"]
    push_buffer [of run_demo "''1''" "''<input>''"
      "fresh_process\<lparr>buffer := [''x = '' @ [CHR 0x5C, CHR 0x0A]]\<rparr>"]
    push_buffer [of run_demo "[]" "''<input>''"
      "fresh_process\<lparr>buffer := [''if True:'' @ [CHR 0x0A], ''  exit()'' @ [CHR 0x0A]]\<rparr>"]
  by (simp add: run_demo_def fresh_process_def push_finish_def prompt_def raised_def
      end_state_def push_prepare_fields)

subsection \<open>The namespace\<close>

text \<open>
  C3 (as stated, fails): before a source is evaluated or run, every entry of
  \<open>app.objects\<close> and of \<open>app.modules\<close> is in the interpreter's namespace. After
  \<open>x = 1\<close> and then \<open>import os as x\<close>, both routed by \<open>setitem\<close>, the name \<open>x\<close> is
  in both registries; \<open>synclocals\<close> copies the objects first and the modules over them,
  so the entry of \<open>app.objects\<close> is not in the namespace when the source runs.
\<close>

theorem synclocals_objects_counterexample:
  "app_objects (setitem ''x'' (PyModule ''os'') (setitem ''x'' (PyOther ''1'') fresh_process)) ''x''
     = Some (PyOther ''1'')
   \<and> locals_store
       (synclocals (setitem ''x'' (PyModule ''os'') (setitem ''x'' (PyOther ''1'') fresh_process))) ''x''
     \<noteq> Some (PyOther ''1'')
   \<and> locals_store
       (push_prepare ''x''
         (setitem ''x'' (PyModule ''os'') (setitem ''x'' (PyOther ''1'') fresh_process))) ''x''
     \<noteq> Some (PyOther ''1'')"
  by (simp add: setitem_def push_prepare_fields fresh_process_def)

text \<open>
  C3 (amended): \<open>eval(source)\<close> evaluates, and \<open>push(s)\<close> runs, the source in a state
  whose namespace holds every entry of \<open>app.modules\<close>, and every entry of
  \<open>app.objects\<close> whose key is not a key of \<open>app.modules\<close>.
\<close>

theorem synclocals_before_evaluation:
  "(\<forall>k v. app_modules w k = Some v \<longrightarrow> locals_store (synclocals w) k = Some v)
   \<and> (\<forall>k v. app_objects w k = Some v \<and> app_modules w k = None
         \<longrightarrow> locals_store (synclocals w) k = Some v)
   \<and> eval_source py_eval source w = py_eval source (synclocals w)
   \<and> locals_store (push_prepare s w) = locals_store (synclocals w)
   \<and> push run s filename w =
       push_finish s (push_source s w) (run (push_source s w) filename (push_prepare s w))"
  by (auto simp: eval_source_def push_def push_source_def push_prepare_fields map_add_Some_iff Let_def)

theorem synclocals_before_evaluation_witness:
  "locals_store
     (synclocals (setitem ''np'' (PyModule ''numpy'') (setitem ''x'' (PyOther ''1'') fresh_process)))
     ''np'' = Some (PyModule ''numpy'')
   \<and> locals_store
     (synclocals (setitem ''np'' (PyModule ''numpy'') (setitem ''x'' (PyOther ''1'') fresh_process)))
     ''x'' = Some (PyOther ''1'')"
proof -
  let ?w = "setitem ''np'' (PyModule ''numpy'') (setitem ''x'' (PyOther ''1'') fresh_process)"
  note t = synclocals_before_evaluation [of ?w]
  have m: "app_modules ?w ''np'' = Some (PyModule ''numpy'')"
    by (simp add: setitem_def)
  have ob: "app_objects ?w ''x'' = Some (PyOther ''1'') \<and> app_modules ?w ''x'' = None"
    by (simp add: setitem_def fresh_process_def)
  from t m have 1: "locals_store (synclocals ?w) ''np'' = Some (PyModule ''numpy'')" by blast
  from t ob have 2: "locals_store (synclocals ?w) ''x'' = Some (PyOther ''1'')" by blast
  from 1 2 show ?thesis by blast
qed

text \<open>
  C4: assigning a name stores the value in \<open>app.modules\<close> when the value is a module
  and in \<open>app.objects\<close> otherwise, and leaves the other registry alone; deleting a
  name removes the key from \<open>app.modules\<close> when the value is a module and from
  \<open>app.objects\<close> otherwise, and raises \<open>KeyError\<close> only when the key was not there.
\<close>

theorem setitem_delitem_route_by_kind:
  "app_modules (setitem key v w) = (if ismodule v then (app_modules w)(key \<mapsto> v) else app_modules w)
   \<and> app_objects (setitem key v w) = (if ismodule v then app_objects w else (app_objects w)(key \<mapsto> v))
   \<and> (case delitem key v w of
         Inr w' \<Rightarrow>
           app_modules w' = (if ismodule v then (app_modules w)(key := None) else app_modules w)
           \<and> app_objects w' = (if ismodule v then app_objects w else (app_objects w)(key := None))
       | Inl e \<Rightarrow> e = KeyError \<and> (if ismodule v then app_modules w else app_objects w) key = None)"
  by (auto simp: setitem_def delitem_def split: sum.splits)

theorem setitem_delitem_route_by_kind_witness:
  "app_modules (setitem ''np'' (PyModule ''numpy'') fresh_process) ''np'' = Some (PyModule ''numpy'')
   \<and> app_objects (setitem ''np'' (PyModule ''numpy'') fresh_process) ''np'' = None
   \<and> app_objects (setitem ''x'' (PyOther ''1'') fresh_process) ''x'' = Some (PyOther ''1'')
   \<and> app_modules (setitem ''x'' (PyOther ''1'') fresh_process) ''x'' = None
   \<and> (case delitem ''x'' (PyOther ''1'') (setitem ''x'' (PyOther ''1'') fresh_process) of
         Inr w' \<Rightarrow> app_objects w' ''x'' = None
       | Inl e \<Rightarrow> False)
   \<and> delitem ''x'' (PyOther ''1'') fresh_process = Inl KeyError"
  using setitem_delitem_route_by_kind [of "''np''" "PyModule ''numpy''" fresh_process]
    setitem_delitem_route_by_kind [of "''x''" "PyOther ''1''" fresh_process]
    setitem_delitem_route_by_kind [of "''x''" "PyOther ''1''"
      "setitem ''x'' (PyOther ''1'') fresh_process"]
  by (simp add: setitem_def delitem_def fresh_process_def)

subsection \<open>Output\<close>

text \<open>
  C5, at the input where the code departs from it: the constructor installs
  \<open>showtraceback\<close> as \<open>sys.excepthook\<close>. When the hook is called for an uncaught
  exception, no exception is being handled, so \<open>sys.exc_info()\<close> is three times \<open>None\<close>;
  \<open>showtraceback\<close> does not look at the arguments the hook is given, raises
  \<open>AttributeError\<close> at \<open>last_tb.tb_next\<close>, and makes no call on the widget or the menu.
\<close>

theorem showtraceback_as_excepthook_raises:
  "showtraceback hl format_exception (None, None, None) w =
     Inl (AttributeError,
          w\<lparr>sys_last_type := None, sys_last_value := None, sys_last_traceback := None\<rparr>)
   \<and> raised (showtraceback hl format_exception (None, None, None) w) = Some AttributeError
   \<and> calls (end_state (showtraceback hl format_exception (None, None, None) w)) = calls w"
  by (simp add: showtraceback_def raised_def end_state_def)

text \<open>
  On the other path, where \<open>showtraceback\<close> is called while an exception with a
  traceback is being handled (the interpreter's \<open>runcode\<close>), it does display the
  exception: the traceback after the first frame is formatted, the text without its
  trailing whitespace is inserted with the tag \<open>red\<close>, the bell rings, the console view
  is made visible, and \<open>showtraceback\<close> returns.
\<close>

lemma showtraceback_handled_exception:
  "\<exists>w' tgs hs nl.
     showtraceback hl format_exception (ty, v, Some (Traceback frame nxt)) w = Inr w'
     \<and> calls w' =
         calls w @ [Insert_end (rstrip (concat (format_exception ty v nxt))) tgs False]
           @ hs @ nl
           @ [See_end, Prompt_move, Builtin_print [CHR 0x07], Menu_setview ''console'' True]
     \<and> ''red'' \<in> set (tag_names tgs)
     \<and> (\<forall>c \<in> set hs. \<exists>p tag. c = Highlight p tag (index_insert w))
     \<and> (nl = [] \<or> nl = [Insert_end_plain [CHR 0x0A]])"
proof -
  let ?t = "rstrip (concat (format_exception ty v nxt))"
  let ?w1 = "w\<lparr>sys_last_type := ty, sys_last_value := v,
                sys_last_traceback := Some (Traceback frame nxt)\<rparr>"
  let ?tgs = "if match_traceback ?t then Tags_tuple (''red'' # tag_elems (Tags_str ''red''))
              else Tags_str ''red''"
  let ?wa = "log (Insert_end ?t ?tgs False) ?w1"
  let ?ps = "[(RE_FILEPATH, ''error_file''), (RE_INPUT, ''purple''),
              (RE_LINE, ''blue''), (RE_IN, ''green'')]"
  let ?wh = "try_highlights hl ?ps (index_insert w) ?wa"
  let ?nl = "if strip (get_all ?wh) \<noteq> [] then [Insert_end_plain [CHR 0x0A]] else []"
  let ?w' = "log (Menu_setview ''console'' True)
               (log (Builtin_print [CHR 0x07])
                 (write_console hl [PyOther ?t] False (Tags_str ''red'') ?w1))"
  have idx: "index_insert ?w1 = index_insert w"
    by (simp add: index_insert_def)
  obtain hs where hs: "calls ?wh = calls ?wa @ hs"
      "\<forall>c \<in> set hs. \<exists>p tag. c = Highlight p tag (index_insert w)"
    using try_highlights_calls [of hl ?ps "index_insert w" ?wa] by blast
  have r: "showtraceback hl format_exception (ty, v, Some (Traceback frame nxt)) w = Inr ?w'"
    by (simp add: showtraceback_def Let_def)
  have wc: "calls (write_console hl [PyOther ?t] False (Tags_str ''red'') ?w1) =
      calls ?wh @ ?nl @ [See_end, Prompt_move]"
    by (simp add: write_console_def Let_def write_args_single idx
        del: write_args.simps try_highlights.simps)
  have c: "calls ?w' =
      calls w @ [Insert_end ?t ?tgs False] @ hs @ ?nl
        @ [See_end, Prompt_move, Builtin_print [CHR 0x07], Menu_setview ''console'' True]"
    using hs(1) by (simp add: wc del: try_highlights.simps)
  have t: "''red'' \<in> set (tag_names ?tgs)" by simp
  have n: "?nl = [] \<or> ?nl = [Insert_end_plain [CHR 0x0A]]" by simp
  from r c t hs(2) n show ?thesis by blast
qed

text \<open>
  File links, as far as this file decides them: every \<open>write\<close> asks the widget,
  first of all its highlights, to tag what matches the file-path pattern from the
  place where the insertion cursor was; a click handled for the tag \<open>error_file\<close>
  while a range is hovered opens the editor at the absolute path of the hovered text
  without its first and last character, and a click with no hovered range does
  nothing. Which text the widget tags, and which range it takes as hovered, is
  decided in the module \<open>widget\<close>.
\<close>

lemma write_console_asks_for_file_links:
  "\<exists>rest. calls (write_console hl args sh tgs w) =
     calls (snd (write_args (length args) sh args (tgs, w)))
       @ Highlight RE_FILEPATH ''error_file'' (index_insert w) # rest"
proof -
  let ?w1 = "snd (write_args (length args) sh args (tgs, w))"
  let ?wa = "log (Highlight RE_FILEPATH ''error_file'' (index_insert w)) ?w1"
  let ?ps = "[(RE_INPUT, ''purple''), (RE_LINE, ''blue''), (RE_IN, ''green'')]"
  obtain hs where hs: "calls (try_highlights hl ?ps (index_insert w) ?wa) = calls ?wa @ hs"
    using try_highlights_calls [of hl ?ps "index_insert w" ?wa] by blast
  show ?thesis
  proof (cases "hl RE_FILEPATH ''error_file'' (index_insert w) ?w1")
    case True
    then show ?thesis using hs
      by (simp add: write_console_def Let_def del: try_highlights.simps
          add: try_highlights.simps(2) [of hl RE_FILEPATH])
  next
    case False
    then show ?thesis
      by (simp add: write_console_def Let_def)
  qed
qed

lemma click_opens_editor:
  "calls (click abspath ''error_file'' (w\<lparr>hover_range := Some (a, b)\<rparr>)) =
     calls w @ [Open_editor (abspath (butlast (tl (take (b - a) (drop a (get_all w))))))]"
  "click abspath tag (w\<lparr>hover_range := None\<rparr>) = w\<lparr>hover_range := None\<rparr>"
  by (simp_all add: click_def Let_def get_range_def get_all_def)

text \<open>
  C8: when \<open>write\<close> has more than one argument that is not \<open>None\<close>, the texts it
  inserts are, in order, each such argument followed by a tab, the last one too, and
  then at most the closing newline; an argument that is \<open>None\<close> inserts nothing.
\<close>

theorem write_tab_after_every_argument:
  assumes "1 < length (filter (\<lambda>r. r \<noteq> PyNone) args)"
  shows "inserts (calls (write_console hl args sh tgs w)) =
           inserts (calls w)
             @ concat (map (\<lambda>r. [py_str r, [CHR 0x09]]) (filter (\<lambda>r. r \<noteq> PyNone) args))
         \<or> inserts (calls (write_console hl args sh tgs w)) =
           inserts (calls w)
             @ concat (map (\<lambda>r. [py_str r, [CHR 0x09]]) (filter (\<lambda>r. r \<noteq> PyNone) args))
             @ [[CHR 0x0A]]"
proof -
  have "length (filter (\<lambda>r. r \<noteq> PyNone) args) \<le> length args"
    by (rule length_filter_le)
  with assms have n: "1 < length args" by linarith
  have loop: "inserts (calls (snd (write_args (length args) sh args (tgs, w)))) =
      inserts (calls w)
        @ concat (map (\<lambda>r. [py_str r, [CHR 0x09]]) (filter (\<lambda>r. r \<noteq> PyNone) args))"
    using n by (simp add: write_args_inserts)
  show ?thesis
    by (simp add: write_console_inserts loop)
qed

theorem write_tab_after_every_argument_witness:
  "1 < length (filter (\<lambda>r. r \<noteq> PyNone) [PyOther ''a'', PyNone, PyOther ''b''])
   \<and> inserts (calls (write_console hl_returns [PyOther ''a'', PyNone, PyOther ''b''] False
         (Tags_tuple []) fresh_process))
     = [''a'', [CHR 0x09], ''b'', [CHR 0x09], [CHR 0x0A]]"
proof -
  have h: "1 < length (filter (\<lambda>r. r \<noteq> PyNone) [PyOther ''a'', PyNone, PyOther ''b''])"
    by simp
  have e: "strip (''a'' @ [CHR 0x09] @ ''b'' @ [CHR 0x09, CHR 0x0A]) \<noteq> []"
    by (simp add: strip_def rstrip_def py_isspace_def)
  have c: "inserts (calls (write_console hl_returns [PyOther ''a'', PyNone, PyOther ''b''] False
         (Tags_tuple []) fresh_process)) \<noteq> [''a'', [CHR 0x09], ''b'', [CHR 0x09]]"
    using e
    by (simp add: write_console_inserts Let_def widget_text_def fresh_process_def)
  from write_tab_after_every_argument [OF h, of hl_returns False "Tags_tuple []" fresh_process] c h
  show ?thesis by (simp add: fresh_process_def)
qed

subsection \<open>Clearing the console\<close>

text \<open>
  C7: calling the clear helper marks the prompt as not on the bottom, then deletes
  the widget text from \<open>"1.0"\<close> to \<open>"end"\<close>, which leaves the widget empty, and then
  displays the prompt again.
\<close>

theorem Clear_call_clears_then_prompts:
  "calls (Clear_call w) = calls w @ [Prompt_set_is_on_bottom False, Delete_all, Prompt_call]
   \<and> calls (clear w) = calls w @ [Prompt_set_is_on_bottom False, Delete_all]
   \<and> widget_text (calls (clear w)) = []
   \<and> widget_text (calls (Clear_call w)) = []"
  by (simp add: Clear_call_def clear_def prompt_def widget_text_def)

text \<open>
  C9: taking the \<open>repr\<close> of the clear helper is not free of effects. It makes the calls
  that calling the helper makes, in the same order: the prompt is marked as not on the
  bottom, the widget text is deleted, which leaves the widget empty, and the prompt is
  displayed; the state it leaves is the state the call leaves, and differs from the
  state before; and it returns the empty string.
\<close>

theorem Clear_repr_same_effect:
  "calls (fst (Clear_repr w)) =
     calls w @ [Prompt_set_is_on_bottom False, Delete_all, Prompt_call]
   \<and> widget_text (calls (fst (Clear_repr w))) = []
   \<and> fst (Clear_repr w) = Clear_call w
   \<and> fst (Clear_repr w) \<noteq> w
   \<and> snd (Clear_repr w) = []"
proof -
  have c: "calls (fst (Clear_repr w)) =
      calls w @ [Prompt_set_is_on_bottom False, Delete_all, Prompt_call]"
    by (simp add: Clear_repr_def clear_def prompt_def)
  have t: "widget_text (calls (fst (Clear_repr w))) = []"
    by (simp add: Clear_repr_def clear_def prompt_def widget_text_def)
  have e: "fst (Clear_repr w) = Clear_call w"
    by (simp add: Clear_repr_def Clear_call_def)
  have n: "fst (Clear_repr w) \<noteq> w"
  proof
    assume "fst (Clear_repr w) = w"
    then have "calls (fst (Clear_repr w)) = calls w" by simp
    with c show False by simp
  qed
  have r: "snd (Clear_repr w) = []"
    by (simp add: Clear_repr_def)
  from c t e n r show ?thesis by blast
qed

subsection \<open>The prompt and the run\<close>

text \<open>
  C10 (as stated, fails): for a source that does not begin with \<open>plot\<close>, the prompt is
  displayed only after the run. The source \<open>clear()\<close> does not begin with \<open>plot\<close>, and
  its run calls the clear helper, which displays the prompt: the prompt is displayed
  during the run, before \<open>push\<close> goes on to the parser. And when the run raises
  \<open>SystemExit\<close>, \<open>push\<close> is left before its last line: no prompt is displayed after
  the run.
\<close>

theorem push_prompt_order_counterexample:
  "take 4 ''clear()'' \<noteq> ''plot''
   \<and> calls (end_state (push run_demo ''clear()'' ''<input>'' fresh_process)) =
       [Parse_preprocess ''clear()'',
        Prompt_set_is_on_bottom False, Delete_all, Prompt_call,
        Highlight RE_FILEPATH ''error_file'' 0, Highlight RE_INPUT ''purple'' 0,
        Highlight RE_LINE ''blue'' 0, Highlight RE_IN ''green'' 0, See_end, Prompt_move,
        Parse_call ''clear()'', History_extend ''clear()'', Prompt_call]
   \<and> raised (push run_demo [] ''<input>''
        (fresh_process\<lparr>buffer := [''if True:'' @ [CHR 0x0A], ''  exit()'' @ [CHR 0x0A]]\<rparr>))
       = Some SystemExit
   \<and> calls (end_state (push run_demo [] ''<input>''
        (fresh_process\<lparr>buffer := [''if True:'' @ [CHR 0x0A], ''  exit()'' @ [CHR 0x0A]]\<rparr>)))
       = [Parse_preprocess (''if True:'' @ [CHR 0x0A] @ ''  exit()'' @ [CHR 0x0A])]"
  by (simp add: push_unfold push_finish_def run_demo_def raised_def end_state_def
      push_prepare_fields prompt_def Clear_call_def clear_def write_console_def Let_def
      hl_returns_def index_insert_def get_all_def widget_text_def strip_def rstrip_def
      py_isspace_def fresh_process_def)

text \<open>
  C10 (amended): up to the run of the source, \<open>push\<close> itself calls the parser's
  \<open>preprocess\<close> and, exactly when the accumulated source begins with \<open>plot\<close>, the
  prompt. When the run returns, \<open>push\<close> goes on from the state the run left and calls
  the prompt last, for every source; when the run raises, \<open>push\<close> makes no further
  call. What the run itself calls is not restricted.
\<close>

theorem push_prompt_order:
  "calls (push_prepare s w) =
     calls w @ [Parse_preprocess (concat (buffer w) @ s)]
       @ (if take 4 (concat (buffer w) @ s) = ''plot'' then [Prompt_call] else [])
   \<and> (case run (concat (buffer w) @ s) filename (push_prepare s w) of
         Inr (did_compile, w3) \<Rightarrow>
           raised (push run s filename w) = None
           \<and> calls (end_state (push run s filename w)) =
               calls w3
                 @ (if did_compile then []
                    else [Parse_call (concat (buffer w) @ s), History_extend s])
                 @ [Prompt_call]
       | Inl (e, w3) \<Rightarrow> push run s filename w = Inl (e, w3))"
  by (simp add: push_unfold push_finish_def prompt_def raised_def end_state_def
      push_prepare_fields split: sum.splits prod.splits)

theorem push_prompt_order_witness:
  "calls (end_state (push run_demo ''plot = 1'' ''<input>'' fresh_process)) =
     [Parse_preprocess ''plot = 1'', Prompt_call, Parse_call ''plot = 1'',
      History_extend ''plot = 1'', Prompt_call]
   \<and> calls (end_state (push run_demo ''x = 1'' ''<input>'' fresh_process)) =
     [Parse_preprocess ''x = 1'', Parse_call ''x = 1'', History_extend ''x = 1'', Prompt_call]
   \<and> calls (end_state (push run_demo ''if True:'' ''<input>'' fresh_process)) =
     [Parse_preprocess ''if True:'', Prompt_call]"
  using push_prompt_order [of "''plot = 1''" fresh_process run_demo "''<input>''"]
    push_prompt_order [of "''x = 1''" fresh_process run_demo "''<input>''"]
    push_prompt_order [of "''if True:''" fresh_process run_demo "''<input>''"]
  by (simp add: run_demo_def fresh_process_def setitem_def push_prepare_fields)

end
